theory Spec2Isabelle
  imports Complex_Main "HOL-Library.Multiset"
begin

section \<open>Data model\<close>

text \<open>
  The three ORM classes of \<^verbatim>\<open>app/database/models\<close> become records, one field per
  \<^verbatim>\<open>Column\<close>.  A column declared \<^verbatim>\<open>nullable=True\<close> is an \<open>option\<close>.  Python's
  \<^verbatim>\<open>int\<close> is \<open>int\<close>; a \<^verbatim>\<open>Float\<close> column is read as a real number, so the model
  covers the order and the arithmetic of finite values and leaves rounding and NaN aside.
  A calendar date is a triple (year, month, day).
\<close>

type_synonym date = "nat \<times> nat \<times> nat"

record Stage =
  id :: int
  name :: string
  country :: string
  date :: date
  lap_length :: real
  attendance :: "int option"

record Stable =
  id :: int
  name :: string
  country :: string
  motor :: "string option"
  tire :: "string option"

record Result =
  id :: int
  stage_id :: int
  stable_id :: int
  driver_name :: string
  race_time :: real
  laps :: int
  pit_stops :: "int option"
  position :: "int option"

text \<open>
  The store behind an \<^verbatim>\<open>AsyncSession\<close>: the rows of the three tables in storage order,
  and for each table the last value handed out by the sequence of its \<^verbatim>\<open>id\<close> column.
  Every statement a handler issues is answered from these tables.  The engine's own
  checks of the declared column constraints (\<^verbatim>\<open>ForeignKey\<close>, \<^verbatim>\<open>nullable=False\<close>) are not part
  of the model: a table may hold a Result whose reference names no stored row, which is
  the state the spec's read operations speak about, and uniqueness of identifiers is a
  hypothesis where a theorem needs it.
\<close>

record database =
  stages :: "Stage list"
  stables :: "Stable list"
  results :: "Result list"
  stages_id_seq :: int
  stables_id_seq :: int
  results_id_seq :: int

text \<open>\<^verbatim>\<open>primary_key=True\<close>: no two rows of a table carry the same identifier.\<close>

definition primary_key :: "('a \<Rightarrow> int) \<Rightarrow> 'a list \<Rightarrow> bool" where
  "primary_key pk rows = distinct (map pk rows)"

section \<open>Failures\<close>

text \<open>
  \<open>HTTPException status detail\<close> is the exception the routers raise themselves;
  \<open>MultipleResultsFound\<close> is what \<^verbatim>\<open>scalar_one_or_none()\<close> raises on more than one row
  (a subclass of \<^verbatim>\<open>SQLAlchemyError\<close>).
\<close>

datatype failure = HTTPException int string | MultipleResultsFound

definition scalar_one_or_none :: "'a list \<Rightarrow> failure + 'a option" where
  "scalar_one_or_none rows =
     (case rows of
        [] \<Rightarrow> Inr None
      | [x] \<Rightarrow> Inr (Some x)
      | _ \<Rightarrow> Inl MultipleResultsFound)"

section \<open>Python values\<close>

text \<open>
  The values the handlers put into the dictionaries they return, and the decoded JSON
  values of a request body.  A \<^verbatim>\<open>dict\<close> is its list of items in insertion order.
\<close>

datatype py_value = PyNone | PyInt int | PyFloat real | PyStr string | PyDate date

type_synonym py_dict = "(string \<times> py_value) list"

text \<open>\<^verbatim>\<open>str.lower()\<close> on the ASCII letters, which is all the two order tokens contain.\<close>

definition lower_char :: "char \<Rightarrow> char" where
  "lower_char c =
     (let n = (of_char c :: nat) in if 65 \<le> n \<and> n \<le> 90 then char_of (n + 32) else c)"

definition lower :: "string \<Rightarrow> string" where
  "lower s = map lower_char s"

text \<open>The decimal text of a length, as an f-string renders it.\<close>

definition digit_char :: "nat \<Rightarrow> char" where
  "digit_char d = char_of (48 + d)"

function str_nat :: "nat \<Rightarrow> string" where
  "str_nat n = (if n < 10 then [digit_char n] else str_nat (n div 10) @ [digit_char (n mod 10)])"
  by pat_completeness auto
termination
  by (relation "measure (\<lambda>n. n)") auto

section \<open>Wire schemas\<close>

text \<open>
  \<^verbatim>\<open>app/schemas\<close>.  \<^verbatim>\<open>ResultBase\<close> declares seven fields and \<^verbatim>\<open>StageBase\<close> five, none
  with a default; \<^verbatim>\<open>StableBase\<close> declares \<^verbatim>\<open>motor\<close> and \<^verbatim>\<open>tire\<close> as
  \<^verbatim>\<open>str | None = None\<close>.  The \<^verbatim>\<open>Create\<close> classes add nothing to their bases.
\<close>

record ResultBase =
  driver_name :: string
  race_time :: real
  laps :: int
  position :: int
  pit_stops :: int
  stable_id :: int
  stage_id :: int

type_synonym ResultCreate = ResultBase

record StageBase =
  name :: string
  country :: string
  date :: date
  attendance :: int
  lap_length :: real

type_synonym StageCreate = StageBase

record StableBase =
  name :: string
  country :: string
  motor :: "string option"
  tire :: "string option"

type_synonym StableCreate = StableBase

text \<open>
  Validation of a decoded request body against a schema.  A field without a default must
  be present; \<^verbatim>\<open>int\<close> takes an integer, \<^verbatim>\<open>float\<close> an integer or a real, \<^verbatim>\<open>str\<close> a string,
  \<^verbatim>\<open>date\<close> a date; \<^verbatim>\<open>str | None = None\<close> also takes null and a missing key.  The first
  rejected field, in declaration order, is reported (the request is then answered 422).
\<close>

datatype validation_error = Field_required string | Wrong_type string

definition int_field :: "py_dict \<Rightarrow> string \<Rightarrow> validation_error + int" where
  "int_field body k =
     (case map_of body k of
        None \<Rightarrow> Inl (Field_required k)
      | Some (PyInt i) \<Rightarrow> Inr i
      | Some _ \<Rightarrow> Inl (Wrong_type k))"

definition float_field :: "py_dict \<Rightarrow> string \<Rightarrow> validation_error + real" where
  "float_field body k =
     (case map_of body k of
        None \<Rightarrow> Inl (Field_required k)
      | Some (PyFloat x) \<Rightarrow> Inr x
      | Some (PyInt i) \<Rightarrow> Inr (of_int i)
      | Some _ \<Rightarrow> Inl (Wrong_type k))"

definition str_field :: "py_dict \<Rightarrow> string \<Rightarrow> validation_error + string" where
  "str_field body k =
     (case map_of body k of
        None \<Rightarrow> Inl (Field_required k)
      | Some (PyStr x) \<Rightarrow> Inr x
      | Some _ \<Rightarrow> Inl (Wrong_type k))"

definition date_field :: "py_dict \<Rightarrow> string \<Rightarrow> validation_error + date" where
  "date_field body k =
     (case map_of body k of
        None \<Rightarrow> Inl (Field_required k)
      | Some (PyDate x) \<Rightarrow> Inr x
      | Some _ \<Rightarrow> Inl (Wrong_type k))"

definition optional_str_field :: "py_dict \<Rightarrow> string \<Rightarrow> validation_error + string option" where
  "optional_str_field body k =
     (case map_of body k of
        None \<Rightarrow> Inr None
      | Some PyNone \<Rightarrow> Inr None
      | Some (PyStr x) \<Rightarrow> Inr (Some x)
      | Some _ \<Rightarrow> Inl (Wrong_type k))"

definition ResultCreate_validate :: "py_dict \<Rightarrow> validation_error + ResultCreate" where
  "ResultCreate_validate body =
     (case str_field body ''driver_name'' of Inl e \<Rightarrow> Inl e | Inr v1 \<Rightarrow>
      case float_field body ''race_time'' of Inl e \<Rightarrow> Inl e | Inr v2 \<Rightarrow>
      case int_field body ''laps'' of Inl e \<Rightarrow> Inl e | Inr v3 \<Rightarrow>
      case int_field body ''position'' of Inl e \<Rightarrow> Inl e | Inr v4 \<Rightarrow>
      case int_field body ''pit_stops'' of Inl e \<Rightarrow> Inl e | Inr v5 \<Rightarrow>
      case int_field body ''stable_id'' of Inl e \<Rightarrow> Inl e | Inr v6 \<Rightarrow>
      case int_field body ''stage_id'' of Inl e \<Rightarrow> Inl e | Inr v7 \<Rightarrow>
        Inr \<lparr> ResultBase.driver_name = v1, race_time = v2, laps = v3, position = v4,
              pit_stops = v5, stable_id = v6, stage_id = v7 \<rparr>)"

definition StageCreate_validate :: "py_dict \<Rightarrow> validation_error + StageCreate" where
  "StageCreate_validate body =
     (case str_field body ''name'' of Inl e \<Rightarrow> Inl e | Inr v1 \<Rightarrow>
      case str_field body ''country'' of Inl e \<Rightarrow> Inl e | Inr v2 \<Rightarrow>
      case date_field body ''date'' of Inl e \<Rightarrow> Inl e | Inr v3 \<Rightarrow>
      case int_field body ''attendance'' of Inl e \<Rightarrow> Inl e | Inr v4 \<Rightarrow>
      case float_field body ''lap_length'' of Inl e \<Rightarrow> Inl e | Inr v5 \<Rightarrow>
        Inr \<lparr> StageBase.name = v1, country = v2, date = v3, attendance = v4,
              lap_length = v5 \<rparr>)"

definition StableCreate_validate :: "py_dict \<Rightarrow> validation_error + StableCreate" where
  "StableCreate_validate body =
     (case str_field body ''name'' of Inl e \<Rightarrow> Inl e | Inr v1 \<Rightarrow>
      case str_field body ''country'' of Inl e \<Rightarrow> Inl e | Inr v2 \<Rightarrow>
      case optional_str_field body ''motor'' of Inl e \<Rightarrow> Inl e | Inr v3 \<Rightarrow>
      case optional_str_field body ''tire'' of Inl e \<Rightarrow> Inl e | Inr v4 \<Rightarrow>
        Inr \<lparr> StableBase.name = v1, country = v2, motor = v3, tire = v4 \<rparr>)"

section \<open>Routers: results\<close>

text \<open>
  \<^verbatim>\<open>Result(**result.dict())\<close> followed by \<^verbatim>\<open>add\<close>, \<^verbatim>\<open>commit\<close>, \<^verbatim>\<open>refresh\<close>: the row takes
  the payload's fields and the next value of the sequence as its identifier.
\<close>

definition Result_of_dict :: "int \<Rightarrow> ResultCreate \<Rightarrow> Result" where
  "Result_of_dict new_id result =
     \<lparr> Result.id = new_id,
       stage_id = ResultBase.stage_id result,
       stable_id = ResultBase.stable_id result,
       driver_name = ResultBase.driver_name result,
       race_time = ResultBase.race_time result,
       laps = ResultBase.laps result,
       pit_stops = Some (ResultBase.pit_stops result),
       position = Some (ResultBase.position result) \<rparr>"

text \<open>
  \<^verbatim>\<open>POST /results/\<close>.  Each \<^verbatim>\<open>raise\<close> leaves the handler before \<^verbatim>\<open>db.add\<close>, so the
  store it returns is the one it was given.
\<close>

definition create_result :: "ResultCreate \<Rightarrow> database \<Rightarrow> (failure + Result) \<times> database" where
  "create_result result db =
     (case scalar_one_or_none
             (filter (\<lambda>s. Stable.id s = ResultBase.stable_id result) (stables db)) of
        Inl e \<Rightarrow> (Inl e, db)
      | Inr None \<Rightarrow> (Inl (HTTPException 400 ''Invalid stable_id: does not exist''), db)
      | Inr (Some stable_check) \<Rightarrow>
          (case scalar_one_or_none
                  (filter (\<lambda>s. Stage.id s = ResultBase.stage_id result) (stages db)) of
             Inl e \<Rightarrow> (Inl e, db)
           | Inr None \<Rightarrow> (Inl (HTTPException 400 ''Invalid stage_id: does not exist''), db)
           | Inr (Some stage_check) \<Rightarrow>
               (let new_result = Result_of_dict (results_id_seq db + 1) result
                in (Inr new_result,
                    db\<lparr>results := results db @ [new_result],
                       results_id_seq := results_id_seq db + 1\<rparr>))))"

text \<open>\<^verbatim>\<open>GET /results/filter/\<close>: one \<^verbatim>\<open>where\<close> with both equalities.\<close>

definition get_filtered_results :: "int \<Rightarrow> int \<Rightarrow> database \<Rightarrow> Result list" where
  "get_filtered_results stage_id' stable_id' db =
     filter (\<lambda>r. Result.stage_id r = stage_id' \<and> Result.stable_id r = stable_id') (results db)"

text \<open>
  \<^verbatim>\<open>GET /results/join/\<close>.  The query is the inner join of the three tables on the two
  reference columns; each of its rows becomes a five-item dictionary.
\<close>

definition join_query :: "database \<Rightarrow> (Result \<times> string \<times> string) list" where
  "join_query db =
     [(r, Stage.name s, Stable.name t).
        r \<leftarrow> results db,
        s \<leftarrow> stages db, Result.stage_id r = Stage.id s,
        t \<leftarrow> stables db, Result.stable_id r = Stable.id t]"

definition details_row :: "Result \<times> string \<times> string \<Rightarrow> py_dict" where
  "details_row row =
     (case row of (r, stage_name, stable_name) \<Rightarrow>
        [(''id'', PyInt (Result.id r)),
         (''driver_name'', PyStr (Result.driver_name r)),
         (''race_time'', PyFloat (Result.race_time r)),
         (''stage_name'', PyStr stage_name),
         (''stable_name'', PyStr stable_name)])"

definition get_results_with_details :: "database \<Rightarrow> py_dict list" where
  "get_results_with_details db = map details_row (join_query db)"

text \<open>
  \<^verbatim>\<open>PUT /results/update_laps/\<close>.  The loop assigns \<^verbatim>\<open>laps\<close> on each selected object; the
  commit writes each of them back to the row with its identifier.
\<close>

fun set_laps :: "Result list \<Rightarrow> int \<Rightarrow> Result list \<Rightarrow> Result list" where
  "set_laps [] new_laps table = table"
| "set_laps (result # rest) new_laps table =
     set_laps rest new_laps
       (map (\<lambda>row. if Result.id row = Result.id result then row\<lparr>Result.laps := new_laps\<rparr> else row)
          table)"

definition update_laps :: "real \<Rightarrow> int \<Rightarrow> database \<Rightarrow> py_dict \<times> database" where
  "update_laps race_time_threshold new_laps db =
     (let results_to_update =
            filter (\<lambda>r. Result.race_time r > race_time_threshold) (results db)
      in ([(''message'', PyStr (str_nat (length results_to_update) @ '' results updated.''))],
          db\<lparr>results := set_laps results_to_update new_laps (results db)\<rparr>))"

text \<open>
  \<^verbatim>\<open>GET /results/sorted/\<close>.  \<^verbatim>\<open>ORDER BY race_time ASC\<close> is a sort on the column,
  \<^verbatim>\<open>DESC\<close> a sort on its negation.
\<close>

definition get_sorted_results :: "string \<Rightarrow> database \<Rightarrow> failure + Result list" where
  "get_sorted_results order db =
     (if lower order = ''asc'' then Inr (sort_key Result.race_time (results db))
      else if lower order = ''desc'' then Inr (sort_key (\<lambda>r. - Result.race_time r) (results db))
      else Inl (HTTPException 400 ''Invalid order parameter. Use 'asc' or 'desc'.''))"

section \<open>Routers: stages\<close>

text \<open>
  \<^verbatim>\<open>GET /stages/group_by/\<close>.  \<^verbatim>\<open>GROUP BY stage_id\<close> makes one group for each value the
  column takes in the table; \<^verbatim>\<open>avg\<close> is the sum of a group's values over their number.
\<close>

definition avg :: "real list \<Rightarrow> real" where
  "avg xs = sum_list xs / real (length xs)"

definition group_by_query :: "Result list \<Rightarrow> (int \<times> real) list" where
  "group_by_query rows =
     map (\<lambda>k. (k, avg (map Result.race_time (filter (\<lambda>r. Result.stage_id r = k) rows))))
       (remdups (map Result.stage_id rows))"

definition get_average_race_time_per_stage :: "database \<Rightarrow> py_dict list" where
  "get_average_race_time_per_stage db =
     map (\<lambda>row. [(''stage_id'', PyInt (fst row)), (''avg_race_time'', PyFloat (snd row))])
       (group_by_query (results db))"

section \<open>Services\<close>

text \<open>
  Modelled from the spec: the classes \<^verbatim>\<open>StageUpdate\<close>, \<^verbatim>\<open>StableUpdate\<close> and
  \<^verbatim>\<open>ResultUpdate\<close>, which the three service modules import from \<^verbatim>\<open>app/schemas\<close> and
  which no schema module declares.  The spec describes an update's input as a partial
  input in which each attribute is either present or not, the identifier being immutable.
  The fields are taken to be those of the entity's \<^verbatim>\<open>Base\<close> schema with their types, each
  either present in the payload (\<open>Some\<close>) or not (\<open>None\<close>).
\<close>

record StageUpdate =
  name :: "string option"
  country :: "string option"
  date :: "date option"
  attendance :: "int option"
  lap_length :: "real option"

record StableUpdate =
  name :: "string option"
  country :: "string option"
  motor :: "(string option) option"
  tire :: "(string option) option"

record ResultUpdate =
  driver_name :: "string option"
  race_time :: "real option"
  laps :: "int option"
  position :: "int option"
  pit_stops :: "int option"
  stable_id :: "int option"
  stage_id :: "int option"
















section \<open>Notions of the specification\<close>

text \<open>
  A Result's references resolve when a stored Stage has its \<open>stage_id\<close> and a stored Stable
  has its \<open>stable_id\<close>.
\<close>

definition references_resolve :: "database \<Rightarrow> Result \<Rightarrow> bool" where
  "references_resolve db r \<longleftrightarrow>
     (\<exists>s \<in> set (stages db). Stage.id s = Result.stage_id r)
     \<and> (\<exists>t \<in> set (stables db). Stable.id t = Result.stable_id r)"

section \<open>A sample store\<close>

text \<open>
  Three stages, two stables and four results; the last stage has no result, and the last
  result refers to a stage that is not stored.  The theorems below are instantiated on it.
\<close>

definition monza :: Stage where
  "monza = \<lparr> Stage.id = 1, name = ''Monza'', country = ''Italy'', date = (2024, 5, 1),
             lap_length = 5.79, attendance = Some 40000 \<rparr>"

definition spa :: Stage where
  "spa = \<lparr> Stage.id = 2, name = ''Spa'', country = ''Belgium'', date = (2024, 7, 28),
           lap_length = 7, attendance = None \<rparr>"

definition suzuka :: Stage where
  "suzuka = \<lparr> Stage.id = 3, name = ''Suzuka'', country = ''Japan'', date = (2024, 4, 7),
              lap_length = 5.807, attendance = Some 102000 \<rparr>"

definition red_bull :: Stable where
  "red_bull = \<lparr> Stable.id = 1, name = ''Red Bull'', country = ''Austria'',
                motor = None, tire = None \<rparr>"

definition ferrari :: Stable where
  "ferrari = \<lparr> Stable.id = 2, name = ''Ferrari'', country = ''Italy'',
               motor = Some ''Ferrari'', tire = Some ''Pirelli'' \<rparr>"

definition result_max :: Result where
  "result_max = \<lparr> Result.id = 1, stage_id = 1, stable_id = 1, driver_name = ''Max'',
                  race_time = 95.2, laps = 53, pit_stops = Some 2, position = Some 1 \<rparr>"

definition result_charles :: Result where
  "result_charles = \<lparr> Result.id = 2, stage_id = 1, stable_id = 2, driver_name = ''Charles'',
                      race_time = 90, laps = 53, pit_stops = Some 1, position = Some 2 \<rparr>"

definition result_sergio :: Result where
  "result_sergio = \<lparr> Result.id = 3, stage_id = 2, stable_id = 1, driver_name = ''Sergio'',
                     race_time = 101.5, laps = 44, pit_stops = None, position = None \<rparr>"

definition result_orphan :: Result where
  "result_orphan = \<lparr> Result.id = 4, stage_id = 99, stable_id = 1, driver_name = ''Nyck'',
                     race_time = 88, laps = 10, pit_stops = None, position = None \<rparr>"

definition sample_db :: database where
  "sample_db = \<lparr> stages = [monza, spa, suzuka], stables = [red_bull, ferrari],
                 results = [result_max, result_charles, result_sergio, result_orphan],
                 stages_id_seq = 3, stables_id_seq = 2, results_id_seq = 4 \<rparr>"

definition new_result :: ResultCreate where
  "new_result = \<lparr> ResultBase.driver_name = ''Lando'', race_time = 93.4, laps = 53,
                  position = 3, pit_stops = 2, stable_id = 2, stage_id = 2 \<rparr>"




text \<open>
  Request bodies: a result without \<^verbatim>\<open>position\<close> and \<^verbatim>\<open>pit_stops\<close>, a stage without
  \<^verbatim>\<open>attendance\<close>, a stable without \<^verbatim>\<open>motor\<close> and \<^verbatim>\<open>tire\<close>.
\<close>

definition result_body :: py_dict where
  "result_body = [(''stage_id'', PyInt 1), (''stable_id'', PyInt 1), (''driver_name'', PyStr ''Max''),
                  (''race_time'', PyFloat 95.2), (''laps'', PyInt 53)]"

definition stage_body :: py_dict where
  "stage_body = [(''name'', PyStr ''Monza''), (''country'', PyStr ''Italy''),
                 (''date'', PyDate (2024, 5, 1)), (''lap_length'', PyFloat 5.79)]"

definition stable_body :: py_dict where
  "stable_body = [(''name'', PyStr ''Red Bull''), (''country'', PyStr ''Austria'')]"

lemmas sample_defs =
  sample_db_def monza_def spa_def suzuka_def red_bull_def ferrari_def
  result_max_def result_charles_def result_sergio_def result_orphan_def new_result_def

section \<open>Shared lemmas\<close>

lemma scalar_one_or_none_empty:
  "scalar_one_or_none (filter P rows) = Inr None \<longleftrightarrow> (\<forall>x \<in> set rows. \<not> P x)"
proof (cases "filter P rows")
  case Nil
  then show ?thesis
    by (simp add: scalar_one_or_none_def filter_empty_conv)
next
  case (Cons y ys)
  then have "y \<in> set (filter P rows)" by simp
  then have "\<exists>x \<in> set rows. P x" by auto
  with Cons show ?thesis
    by (auto simp: scalar_one_or_none_def split: list.splits)
qed

lemma scalar_one_or_none_absent:
  assumes "\<forall>x \<in> set rows. \<not> P x"
  shows "scalar_one_or_none (filter P rows) = Inr None"
  using assms scalar_one_or_none_empty [of P rows] by blast

lemma scalar_one_or_none_present:
  assumes "scalar_one_or_none (filter P rows) \<noteq> Inr None"
  shows "\<exists>x \<in> set rows. P x"
  using assms scalar_one_or_none_empty [of P rows] by blast

lemma filter_pk_cases:
  assumes "primary_key pk rows"
  shows "filter (\<lambda>x. pk x = k) rows = [] \<or> (\<exists>x. filter (\<lambda>x. pk x = k) rows = [x])"
proof -
  have "distinct (map pk (filter (\<lambda>x. pk x = k) rows))"
    using assms by (simp add: primary_key_def distinct_map_filter)
  moreover have "\<forall>y \<in> set (map pk (filter (\<lambda>x. pk x = k) rows)). y = k"
    by auto
  ultimately show ?thesis
    by (cases "filter (\<lambda>x. pk x = k) rows" rule: remdups_adj.cases) auto
qed

lemma scalar_one_or_none_pk:
  assumes "primary_key pk rows" and "x \<in> set rows"
  shows "scalar_one_or_none (filter (\<lambda>y. pk y = pk x) rows) = Inr (Some x)"
proof -
  have mem: "x \<in> set (filter (\<lambda>y. pk y = pk x) rows)"
    using assms(2) by simp
  from filter_pk_cases [OF assms(1), of "pk x"] mem
  obtain z where z: "filter (\<lambda>y. pk y = pk x) rows = [z]"
    by (auto simp del: set_filter)
  with mem have "z = x" by (simp del: set_filter)
  with z show ?thesis by (simp add: scalar_one_or_none_def)
qed

section \<open>Claims\<close>

text \<open>
  C4.  For every pair of identifiers \<open>(s, t)\<close> the filter returns exactly the stored Results
  whose stage reference is \<open>s\<close> and whose stable reference is \<open>t\<close>, each as often as it is
  stored: a Result is in the output if and only if it is stored and satisfies both
  equalities, and when none does the output is the empty list (the handler has no failing
  branch).
\<close>

theorem filter_by_stage_and_stable:
  "mset (get_filtered_results s t db) =
     filter_mset (\<lambda>r. Result.stage_id r = s \<and> Result.stable_id r = t) (mset (results db))
   \<and> set (get_filtered_results s t db) =
       {r \<in> set (results db). Result.stage_id r = s \<and> Result.stable_id r = t}
   \<and> ((\<forall>r \<in> set (results db). \<not> (Result.stage_id r = s \<and> Result.stable_id r = t))
        \<longrightarrow> get_filtered_results s t db = [])"
  by (auto simp: get_filtered_results_def filter_empty_conv)

theorem filter_by_stage_and_stable_witness:
  "get_filtered_results 7 7 sample_db = []
   \<and> set (get_filtered_results 1 2 sample_db) = {result_charles}"
proof -
  have h: "\<forall>r \<in> set (results sample_db). \<not> (Result.stage_id r = 7 \<and> Result.stable_id r = 7)"
    by (simp add: sample_defs)
  have s: "{r \<in> set (results sample_db). Result.stage_id r = 1 \<and> Result.stable_id r = 2}
             = {result_charles}"
    by (auto simp: sample_defs)
  from filter_by_stage_and_stable [of 7 7 sample_db]
       filter_by_stage_and_stable [of 1 2 sample_db] h s
  show ?thesis by simp
qed

text \<open>
  C1.  Creating a Result checks the stable reference first and the stage reference second.
  When no Stable has the given \<open>stable_id\<close> the handler fails with HTTP 400 (invalid
  stable); when a Stable has it and no Stage has the given \<open>stage_id\<close> it fails with HTTP 400
  (invalid stage); when both exist the new row, built from the payload, is appended to the
  results table.  Whenever the handler fails the store is the one it was given, and the
  results table changes only when both references exist.
\<close>

theorem create_result_checks_references:
  "((\<forall>s \<in> set (stables db). Stable.id s \<noteq> ResultBase.stable_id result) \<longrightarrow>
      create_result result db =
        (Inl (HTTPException 400 ''Invalid stable_id: does not exist''), db))
   \<and> (primary_key Stable.id (stables db)
        \<and> (\<exists>s \<in> set (stables db). Stable.id s = ResultBase.stable_id result)
        \<and> (\<forall>s \<in> set (stages db). Stage.id s \<noteq> ResultBase.stage_id result) \<longrightarrow>
      create_result result db =
        (Inl (HTTPException 400 ''Invalid stage_id: does not exist''), db))
   \<and> (primary_key Stable.id (stables db) \<and> primary_key Stage.id (stages db)
        \<and> (\<exists>s \<in> set (stables db). Stable.id s = ResultBase.stable_id result)
        \<and> (\<exists>s \<in> set (stages db). Stage.id s = ResultBase.stage_id result) \<longrightarrow>
      (\<exists>row. create_result result db =
               (Inr row, db\<lparr>results := results db @ [row],
                            results_id_seq := results_id_seq db + 1\<rparr>)
             \<and> row = Result_of_dict (results_id_seq db + 1) result))
   \<and> ((\<exists>e. fst (create_result result db) = Inl e) \<longrightarrow> snd (create_result result db) = db)
   \<and> (results (snd (create_result result db)) \<noteq> results db \<longrightarrow>
        (\<exists>s \<in> set (stables db). Stable.id s = ResultBase.stable_id result)
        \<and> (\<exists>s \<in> set (stages db). Stage.id s = ResultBase.stage_id result))"
proof (intro conjI impI)
  assume "\<forall>s \<in> set (stables db). Stable.id s \<noteq> ResultBase.stable_id result"
  then have "scalar_one_or_none (filter (\<lambda>s. Stable.id s = ResultBase.stable_id result) (stables db)) = Inr None"
    by (intro scalar_one_or_none_absent) simp
  then show "create_result result db =
        (Inl (HTTPException 400 ''Invalid stable_id: does not exist''), db)"
    by (simp add: create_result_def)
next
  assume a: "primary_key Stable.id (stables db)
        \<and> (\<exists>s \<in> set (stables db). Stable.id s = ResultBase.stable_id result)
        \<and> (\<forall>s \<in> set (stages db). Stage.id s \<noteq> ResultBase.stage_id result)"
  then obtain s where s: "s \<in> set (stables db)" "Stable.id s = ResultBase.stable_id result" by blast
  from a s scalar_one_or_none_pk [of Stable.id "stables db" s]
  have 1: "scalar_one_or_none (filter (\<lambda>s. Stable.id s = ResultBase.stable_id result) (stables db)) = Inr (Some s)"
    by simp
  from a have 2: "scalar_one_or_none (filter (\<lambda>s. Stage.id s = ResultBase.stage_id result) (stages db)) = Inr None"
    by (intro scalar_one_or_none_absent) simp
  from 1 2 show "create_result result db =
        (Inl (HTTPException 400 ''Invalid stage_id: does not exist''), db)"
    by (simp add: create_result_def)
next
  assume a: "primary_key Stable.id (stables db) \<and> primary_key Stage.id (stages db)
        \<and> (\<exists>s \<in> set (stables db). Stable.id s = ResultBase.stable_id result)
        \<and> (\<exists>s \<in> set (stages db). Stage.id s = ResultBase.stage_id result)"
  then obtain s where s: "s \<in> set (stables db)" "Stable.id s = ResultBase.stable_id result" by blast
  from a obtain g where g: "g \<in> set (stages db)" "Stage.id g = ResultBase.stage_id result" by blast
  from a s scalar_one_or_none_pk [of Stable.id "stables db" s]
  have 1: "scalar_one_or_none (filter (\<lambda>s. Stable.id s = ResultBase.stable_id result) (stables db)) = Inr (Some s)"
    by simp
  from a g scalar_one_or_none_pk [of Stage.id "stages db" g]
  have 2: "scalar_one_or_none (filter (\<lambda>s. Stage.id s = ResultBase.stage_id result) (stages db)) = Inr (Some g)"
    by simp
  from 1 2 show "\<exists>row. create_result result db =
               (Inr row, db\<lparr>results := results db @ [row],
                            results_id_seq := results_id_seq db + 1\<rparr>)
             \<and> row = Result_of_dict (results_id_seq db + 1) result"
    by (simp add: create_result_def Let_def)
next
  assume "\<exists>e. fst (create_result result db) = Inl e"
  then show "snd (create_result result db) = db"
    by (auto simp: create_result_def Let_def split: sum.splits option.splits)
next
  assume a: "results (snd (create_result result db)) \<noteq> results db"
  show "\<exists>s \<in> set (stables db). Stable.id s = ResultBase.stable_id result"
  proof (rule ccontr)
    assume "\<not> ?thesis"
    then have "scalar_one_or_none (filter (\<lambda>s. Stable.id s = ResultBase.stable_id result) (stables db)) = Inr None"
      by (intro scalar_one_or_none_absent) simp
    with a show False by (simp add: create_result_def)
  qed
next
  assume a: "results (snd (create_result result db)) \<noteq> results db"
  show "\<exists>s \<in> set (stages db). Stage.id s = ResultBase.stage_id result"
  proof (rule ccontr)
    assume "\<not> ?thesis"
    then have "scalar_one_or_none (filter (\<lambda>s. Stage.id s = ResultBase.stage_id result) (stages db)) = Inr None"
      by (intro scalar_one_or_none_absent) simp
    with a show False by (simp add: create_result_def split: sum.splits option.splits)
  qed
qed

theorem create_result_checks_references_witness:
  "create_result (new_result\<lparr>ResultBase.stable_id := 7\<rparr>) sample_db =
     (Inl (HTTPException 400 ''Invalid stable_id: does not exist''), sample_db)
   \<and> create_result (new_result\<lparr>ResultBase.stage_id := 99\<rparr>) sample_db =
     (Inl (HTTPException 400 ''Invalid stage_id: does not exist''), sample_db)
   \<and> create_result new_result sample_db =
     (Inr (Result_of_dict 5 new_result),
      sample_db\<lparr>results := results sample_db @ [Result_of_dict 5 new_result],
                results_id_seq := 5\<rparr>)"
proof -
  have a: "\<forall>s \<in> set (stables sample_db).
             Stable.id s \<noteq> ResultBase.stable_id (new_result\<lparr>ResultBase.stable_id := 7\<rparr>)"
    by (simp add: sample_defs)
  have b: "primary_key Stable.id (stables sample_db)
        \<and> (\<exists>s \<in> set (stables sample_db).
              Stable.id s = ResultBase.stable_id (new_result\<lparr>ResultBase.stage_id := 99\<rparr>))
        \<and> (\<forall>s \<in> set (stages sample_db).
              Stage.id s \<noteq> ResultBase.stage_id (new_result\<lparr>ResultBase.stage_id := 99\<rparr>))"
    by (simp add: sample_defs primary_key_def)
  have c: "primary_key Stable.id (stables sample_db) \<and> primary_key Stage.id (stages sample_db)
        \<and> (\<exists>s \<in> set (stables sample_db). Stable.id s = ResultBase.stable_id new_result)
        \<and> (\<exists>s \<in> set (stages sample_db). Stage.id s = ResultBase.stage_id new_result)"
    by (simp add: sample_defs primary_key_def)
  have q: "results_id_seq sample_db + 1 = 5"
    by (simp add: sample_db_def)
  from create_result_checks_references
         [of sample_db "new_result\<lparr>ResultBase.stable_id := 7\<rparr>"] a
  have 1: "create_result (new_result\<lparr>ResultBase.stable_id := 7\<rparr>) sample_db =
             (Inl (HTTPException 400 ''Invalid stable_id: does not exist''), sample_db)"
    by blast
  from create_result_checks_references
         [of sample_db "new_result\<lparr>ResultBase.stage_id := 99\<rparr>"] b
  have 2: "create_result (new_result\<lparr>ResultBase.stage_id := 99\<rparr>) sample_db =
             (Inl (HTTPException 400 ''Invalid stage_id: does not exist''), sample_db)"
    by blast
  from create_result_checks_references [of sample_db new_result] c
  have "\<exists>row. create_result new_result sample_db =
               (Inr row, sample_db\<lparr>results := results sample_db @ [row],
                            results_id_seq := results_id_seq sample_db + 1\<rparr>)
             \<and> row = Result_of_dict (results_id_seq sample_db + 1) new_result"
    by blast
  with q have 3: "create_result new_result sample_db =
     (Inr (Result_of_dict 5 new_result),
      sample_db\<lparr>results := results sample_db @ [Result_of_dict 5 new_result],
                results_id_seq := 5\<rparr>)"
    by simp
  from 1 2 3 show ?thesis by simp
qed

lemma set_laps_map:
  "set_laps sel L tbl =
     map (\<lambda>row. if Result.id row \<in> Result.id ` set sel then row\<lparr>Result.laps := L\<rparr> else row)
       tbl"
proof (induction sel arbitrary: tbl)
  case Nil
  then show ?case by simp
next
  case (Cons r rest)
  show ?case
    by (simp add: Cons.IH o_def)
qed

lemma pk_image_filter:
  assumes "primary_key pk rows" and "row \<in> set rows"
  shows "pk row \<in> pk ` set (filter P rows) \<longleftrightarrow> P row"
proof
  assume "pk row \<in> pk ` set (filter P rows)"
  then obtain y where y: "y \<in> set rows" "P y" "pk y = pk row" by auto
  from assms(1) have "inj_on pk (set rows)"
    by (simp add: primary_key_def distinct_map)
  with y assms(2) have "y = row" by (auto dest: inj_onD)
  with y show "P row" by simp
next
  assume "P row"
  with assms(2) show "pk row \<in> pk ` set (filter P rows)" by auto
qed

text \<open>
  C2.  For every threshold \<open>t\<close> and laps value \<open>L\<close>, on a results table with unique
  identifiers, the bulk update replaces the table by the one in which every Result with
  \<open>race_time > t\<close> has \<open>laps = L\<close> and is otherwise as before, and every other Result is as
  before; nothing else in the store changes; and the message carries the number of Results
  with \<open>race_time > t\<close>, which are the Results the update assigned.
\<close>

theorem update_laps_above_threshold:
  assumes "primary_key Result.id (results db)"
  shows "update_laps t L db =
           ([(''message'',
              PyStr (str_nat (length (filter (\<lambda>r. Result.race_time r > t) (results db)))
                     @ '' results updated.''))],
            db\<lparr>results :=
                 map (\<lambda>r. if Result.race_time r > t then r\<lparr>Result.laps := L\<rparr> else r)
                   (results db)\<rparr>)"
proof -
  have "set_laps (filter (\<lambda>r. Result.race_time r > t) (results db)) L (results db) =
        map (\<lambda>r. if Result.race_time r > t then r\<lparr>Result.laps := L\<rparr> else r) (results db)"
    unfolding set_laps_map
    by (rule map_cong [OF refl]) (simp only: pk_image_filter [OF assms])
  then show ?thesis
    by (simp add: update_laps_def Let_def)
qed

theorem update_laps_above_threshold_witness:
  "fst (update_laps 93 60 sample_db) = [(''message'', PyStr ''2 results updated.'')]
   \<and> results (snd (update_laps 93 60 sample_db)) =
       [result_max\<lparr>Result.laps := 60\<rparr>, result_charles,
        result_sergio\<lparr>Result.laps := 60\<rparr>, result_orphan]"
proof -
  have h: "primary_key Result.id (results sample_db)"
    by (simp add: sample_defs primary_key_def)
  have n: "length (filter (\<lambda>r. Result.race_time r > 93) (results sample_db)) = 2"
    by (simp add: sample_defs)
  have d: "str_nat 2 = ''2''"
    by code_simp
  have m: "map (\<lambda>r. if Result.race_time r > 93 then r\<lparr>Result.laps := 60\<rparr> else r)
             (results sample_db) =
           [result_max\<lparr>Result.laps := 60\<rparr>, result_charles,
            result_sergio\<lparr>Result.laps := 60\<rparr>, result_orphan]"
    by (simp add: sample_defs)
  from update_laps_above_threshold [OF h, of 93 60] n d m show ?thesis
    by simp
qed

lemma sort_key_neg_descending:
  fixes f :: "'a \<Rightarrow> real"
  shows "sorted_wrt (\<lambda>a b. a \<ge> b) (map f (sort_key (\<lambda>r. - f r) xs))"
proof -
  have "sorted (map (\<lambda>r. - f r) (sort_key (\<lambda>r. - f r) xs))"
    by (rule sorted_sort_key)
  then show ?thesis
    by (simp add: sorted_wrt_map)
qed

text \<open>
  C3.  For every stored set of Results: when the order token lower-cases to \<open>asc\<close> the
  handler returns all Results (the same multiset) in a sequence non-decreasing in
  \<open>race_time\<close>; when it lower-cases to \<open>desc\<close>, all Results in a sequence non-increasing in
  \<open>race_time\<close>; for every other token it fails with HTTP 400 and returns no Results.
\<close>

theorem sorted_by_race_time:
  "(lower order = ''asc'' \<longrightarrow>
      (\<exists>out. get_sorted_results order db = Inr out \<and> mset out = mset (results db)
             \<and> sorted_wrt (\<lambda>a b. a \<le> b) (map Result.race_time out)))
   \<and> (lower order = ''desc'' \<longrightarrow>
      (\<exists>out. get_sorted_results order db = Inr out \<and> mset out = mset (results db)
             \<and> sorted_wrt (\<lambda>a b. a \<ge> b) (map Result.race_time out)))
   \<and> (lower order \<noteq> ''asc'' \<and> lower order \<noteq> ''desc'' \<longrightarrow>
      get_sorted_results order db =
        Inl (HTTPException 400 ''Invalid order parameter. Use 'asc' or 'desc'.''))"
proof (intro conjI impI)
  assume "lower order = ''asc''"
  then show "\<exists>out. get_sorted_results order db = Inr out \<and> mset out = mset (results db)
             \<and> sorted_wrt (\<lambda>a b. a \<le> b) (map Result.race_time out)"
    by (simp add: get_sorted_results_def)
next
  assume "lower order = ''desc''"
  then have "get_sorted_results order db =
               Inr (sort_key (\<lambda>r. - Result.race_time r) (results db))"
    by (simp add: get_sorted_results_def)
  then show "\<exists>out. get_sorted_results order db = Inr out \<and> mset out = mset (results db)
             \<and> sorted_wrt (\<lambda>a b. a \<ge> b) (map Result.race_time out)"
    using sort_key_neg_descending [of Result.race_time "results db"] by simp
next
  assume "lower order \<noteq> ''asc'' \<and> lower order \<noteq> ''desc''"
  then show "get_sorted_results order db =
        Inl (HTTPException 400 ''Invalid order parameter. Use 'asc' or 'desc'.'')"
    by (simp add: get_sorted_results_def)
qed

theorem sorted_by_race_time_witness:
  "(\<exists>out. get_sorted_results ''ASC'' sample_db = Inr out \<and> mset out = mset (results sample_db)
          \<and> sorted_wrt (\<lambda>a b. a \<le> b) (map Result.race_time out))
   \<and> (\<exists>out. get_sorted_results ''DeSc'' sample_db = Inr out
          \<and> mset out = mset (results sample_db)
          \<and> sorted_wrt (\<lambda>a b. a \<ge> b) (map Result.race_time out))
   \<and> get_sorted_results ''up'' sample_db =
       Inl (HTTPException 400 ''Invalid order parameter. Use 'asc' or 'desc'.'')
   \<and> get_sorted_results ''ASC'' sample_db =
       Inr [result_orphan, result_charles, result_max, result_sergio]
   \<and> get_sorted_results ''DeSc'' sample_db =
       Inr [result_sergio, result_max, result_charles, result_orphan]"
proof -
  have a: "lower ''ASC'' = ''asc''"
    by code_simp
  have d: "lower ''DeSc'' = ''desc''"
    by code_simp
  have u: "lower ''up'' \<noteq> ''asc'' \<and> lower ''up'' \<noteq> ''desc''"
    by code_simp
  have sa: "sort_key Result.race_time (results sample_db) =
              [result_orphan, result_charles, result_max, result_sergio]"
    by (simp add: sample_defs)
  have sd: "sort_key (\<lambda>r. - Result.race_time r) (results sample_db) =
              [result_sergio, result_max, result_charles, result_orphan]"
    by (simp add: sample_defs)
  have 1: "get_sorted_results ''ASC'' sample_db =
             Inr [result_orphan, result_charles, result_max, result_sergio]"
    using a sa by (simp add: get_sorted_results_def)
  have 2: "get_sorted_results ''DeSc'' sample_db =
             Inr [result_sergio, result_max, result_charles, result_orphan]"
    using d sd by (simp add: get_sorted_results_def)
  from sorted_by_race_time [of "''ASC''" sample_db] a
       sorted_by_race_time [of "''DeSc''" sample_db] d
       sorted_by_race_time [of "''up''" sample_db] u
  have "(\<exists>out. get_sorted_results ''ASC'' sample_db = Inr out
             \<and> mset out = mset (results sample_db)
             \<and> sorted_wrt (\<lambda>a b. a \<le> b) (map Result.race_time out))
      \<and> (\<exists>out. get_sorted_results ''DeSc'' sample_db = Inr out
             \<and> mset out = mset (results sample_db)
             \<and> sorted_wrt (\<lambda>a b. a \<ge> b) (map Result.race_time out))
      \<and> get_sorted_results ''up'' sample_db =
          Inl (HTTPException 400 ''Invalid order parameter. Use 'asc' or 'desc'.'')"
    by blast
  with 1 2 show ?thesis by blast
qed

text \<open>
  C5.  For every stored set of Results the handler returns, for each stage identifier that
  occurs as the stage reference of at least one Result, one dictionary holding that
  identifier and the sum of the \<open>race_time\<close> values of the Results with that reference
  divided by their number (a non-empty group), and nothing else: each identifier appears
  once, and an identifier that no Result refers to appears in no dictionary.
\<close>

theorem average_race_time_per_stage:
  "set (get_average_race_time_per_stage db) =
     (\<lambda>k. [(''stage_id'', PyInt k),
            (''avg_race_time'',
             PyFloat (sum_list (map Result.race_time
                                  (filter (\<lambda>r. Result.stage_id r = k) (results db)))
                      / real (length (filter (\<lambda>r. Result.stage_id r = k) (results db)))))])
       ` Result.stage_id ` set (results db)
   \<and> distinct (map (\<lambda>d. map_of d ''stage_id'') (get_average_race_time_per_stage db))
   \<and> (\<forall>k \<in> Result.stage_id ` set (results db).
         filter (\<lambda>r. Result.stage_id r = k) (results db) \<noteq> [])
   \<and> (\<forall>k. (\<forall>r \<in> set (results db). Result.stage_id r \<noteq> k) \<longrightarrow>
          (\<forall>d \<in> set (get_average_race_time_per_stage db).
             map_of d ''stage_id'' \<noteq> Some (PyInt k)))"
proof (intro conjI)
  show "set (get_average_race_time_per_stage db) =
     (\<lambda>k. [(''stage_id'', PyInt k),
            (''avg_race_time'',
             PyFloat (sum_list (map Result.race_time
                                  (filter (\<lambda>r. Result.stage_id r = k) (results db)))
                      / real (length (filter (\<lambda>r. Result.stage_id r = k) (results db)))))])
       ` Result.stage_id ` set (results db)"
    by (simp add: get_average_race_time_per_stage_def group_by_query_def avg_def image_image)
next
  have "map (\<lambda>d. map_of d ''stage_id'') (get_average_race_time_per_stage db) =
        map (\<lambda>k. Some (PyInt k)) (remdups (map Result.stage_id (results db)))"
    by (simp add: get_average_race_time_per_stage_def group_by_query_def o_def)
  moreover have "distinct (map (\<lambda>k. Some (PyInt k)) (remdups (map Result.stage_id (results db))))"
    by (simp add: distinct_map inj_on_def)
  ultimately show "distinct (map (\<lambda>d. map_of d ''stage_id'') (get_average_race_time_per_stage db))"
    by simp
next
  show "\<forall>k \<in> Result.stage_id ` set (results db).
         filter (\<lambda>r. Result.stage_id r = k) (results db) \<noteq> []"
    by (auto simp: filter_empty_conv)
next
  show "\<forall>k. (\<forall>r \<in> set (results db). Result.stage_id r \<noteq> k) \<longrightarrow>
          (\<forall>d \<in> set (get_average_race_time_per_stage db).
             map_of d ''stage_id'' \<noteq> Some (PyInt k))"
    by (auto simp: get_average_race_time_per_stage_def group_by_query_def)
qed

theorem average_race_time_per_stage_witness:
  "suzuka \<in> set (stages sample_db)
   \<and> Some (PyInt (Stage.id suzuka)) \<notin>
       (\<lambda>d. map_of d ''stage_id'') ` set (get_average_race_time_per_stage sample_db)
   \<and> [(''stage_id'', PyInt 1), (''avg_race_time'', PyFloat 92.6)]
       \<in> set (get_average_race_time_per_stage sample_db)
   \<and> get_average_race_time_per_stage sample_db =
       [[(''stage_id'', PyInt 1), (''avg_race_time'', PyFloat 92.6)],
        [(''stage_id'', PyInt 2), (''avg_race_time'', PyFloat 101.5)],
        [(''stage_id'', PyInt 99), (''avg_race_time'', PyFloat 88)]]"
proof -
  have h: "\<forall>r \<in> set (results sample_db). Result.stage_id r \<noteq> Stage.id suzuka"
    by (simp add: sample_defs)
  have m: "Result.stage_id result_max \<in> Result.stage_id ` set (results sample_db)"
    by (simp add: sample_db_def)
  have v: "[(''stage_id'', PyInt (Result.stage_id result_max)),
            (''avg_race_time'',
             PyFloat (sum_list (map Result.race_time
                         (filter (\<lambda>r. Result.stage_id r = Result.stage_id result_max)
                            (results sample_db)))
                      / real (length (filter (\<lambda>r. Result.stage_id r = Result.stage_id result_max)
                                        (results sample_db)))))] =
           [(''stage_id'', PyInt 1), (''avg_race_time'', PyFloat 92.6)]"
    by (simp add: sample_defs)
  have e: "get_average_race_time_per_stage sample_db =
       [[(''stage_id'', PyInt 1), (''avg_race_time'', PyFloat 92.6)],
        [(''stage_id'', PyInt 2), (''avg_race_time'', PyFloat 101.5)],
        [(''stage_id'', PyInt 99), (''avg_race_time'', PyFloat 88)]]"
    by (simp add: get_average_race_time_per_stage_def group_by_query_def avg_def sample_defs)
  note t = average_race_time_per_stage [of sample_db]
  note t1 = t [THEN conjunct1]
  note t4 = t [THEN conjunct2, THEN conjunct2, THEN conjunct2, THEN spec, THEN mp, OF h]
  from t4 have 1: "Some (PyInt (Stage.id suzuka)) \<notin>
       (\<lambda>d. map_of d ''stage_id'') ` set (get_average_race_time_per_stage sample_db)"
    by (auto simp del: set_map)
  have "[(''stage_id'', PyInt (Result.stage_id result_max)),
            (''avg_race_time'',
             PyFloat (sum_list (map Result.race_time
                         (filter (\<lambda>r. Result.stage_id r = Result.stage_id result_max)
                            (results sample_db)))
                      / real (length (filter (\<lambda>r. Result.stage_id r = Result.stage_id result_max)
                                        (results sample_db)))))]
          \<in> set (get_average_race_time_per_stage sample_db)"
    unfolding t1 using m by (rule imageI)
  with v have 2: "[(''stage_id'', PyInt 1), (''avg_race_time'', PyFloat 92.6)]
       \<in> set (get_average_race_time_per_stage sample_db)"
    by (simp only:)
  have 3: "suzuka \<in> set (stages sample_db)"
    by (simp add: sample_db_def)
  from 1 2 3 e show ?thesis by (intro conjI)
qed

lemma concat_if_none:
  assumes "\<forall>x \<in> set rows. pk x \<noteq> k"
  shows "concat (map (\<lambda>x. if k = pk x then f x else []) rows) = []"
  using assms by (induction rows) auto

lemma concat_if_pk:
  assumes "primary_key pk rows"
  shows "concat (map (\<lambda>x. if k = pk x then f x else []) rows) =
           (case List.find (\<lambda>x. pk x = k) rows of None \<Rightarrow> [] | Some x \<Rightarrow> f x)"
  using assms
proof (induction rows)
  case Nil
  then show ?case by simp
next
  case (Cons x xs)
  from Cons.prems have pk: "primary_key pk xs" and notin: "pk x \<notin> pk ` set xs"
    by (simp_all add: primary_key_def)
  from notin have fresh: "\<forall>y \<in> set xs. pk y \<noteq> pk x"
    by (metis imageI)
  show ?case
  proof (cases "pk x = k")
    case True
    with fresh have "\<forall>y \<in> set xs. pk y \<noteq> k" by simp
    then have "concat (map (\<lambda>x. if k = pk x then f x else []) xs) = []"
      by (rule concat_if_none)
    with True show ?thesis by simp
  next
    case False
    with Cons.IH [OF pk] show ?thesis by auto
  qed
qed

lemma find_Some_member:
  "List.find P xs = Some x \<Longrightarrow> x \<in> set xs \<and> P x"
  by (induction xs) (auto split: if_splits)

lemma concat_if_singleton:
  "concat (map (\<lambda>x. if P x then [g x] else []) xs) = map g (filter P xs)"
  by (induction xs) auto

lemma join_query_pk:
  assumes "primary_key Stage.id (stages db)" and "primary_key Stable.id (stables db)"
  shows "join_query db =
     map (\<lambda>r. (r, Stage.name (the (List.find (\<lambda>s. Stage.id s = Result.stage_id r) (stages db))),
                   Stable.name (the (List.find (\<lambda>t. Stable.id t = Result.stable_id r) (stables db)))))
       (filter (references_resolve db) (results db))"
proof -
  have inner: "concat (map (\<lambda>t. if Result.stable_id r = Stable.id t
                                 then [(r, n, Stable.name t)] else []) (stables db)) =
        (case List.find (\<lambda>t. Stable.id t = Result.stable_id r) (stables db) of
           None \<Rightarrow> [] | Some t \<Rightarrow> [(r, n, Stable.name t)])" for r n
    by (rule concat_if_pk [OF assms(2)])
  have row: "concat (map (\<lambda>s. if Result.stage_id r = Stage.id s
                 then concat (map (\<lambda>t. if Result.stable_id r = Stable.id t
                                         then [(r, Stage.name s, Stable.name t)] else [])
                                (stables db))
                 else []) (stages db)) =
        (if references_resolve db r
         then [(r, Stage.name (the (List.find (\<lambda>s. Stage.id s = Result.stage_id r) (stages db))),
                   Stable.name (the (List.find (\<lambda>t. Stable.id t = Result.stable_id r) (stables db))))]
         else [])" for r
    unfolding inner concat_if_pk [OF assms(1)]
    by (auto simp: references_resolve_def find_None_iff split: option.splits dest: find_Some_member)
  show ?thesis
    unfolding join_query_def row by (rule concat_if_singleton)
qed

lemma find_pk:
  assumes "primary_key pk rows" and "x \<in> set rows"
  shows "List.find (\<lambda>y. pk y = pk x) rows = Some x"
proof -
  from assms(2) have "List.find (\<lambda>y. pk y = pk x) rows \<noteq> None"
    by (auto simp: find_None_iff)
  then obtain z where z: "List.find (\<lambda>y. pk y = pk x) rows = Some z"
    by blast
  then have "z \<in> set rows" and "pk z = pk x"
    by (auto dest: find_Some_member)
  moreover from assms(1) have "inj_on pk (set rows)"
    by (simp add: primary_key_def distinct_map)
  ultimately have "z = x"
    using assms(2) by (auto dest: inj_onD)
  with z show ?thesis by simp
qed

text \<open>
  C6.  On a store whose stages and stables have unique identifiers, the handler returns one
  row for each Result whose stage reference and stable reference both resolve, in the
  order of the results table, carrying the name of the Stage with that identifier and the
  name of the Stable with that identifier; a Result one of whose references does not
  resolve contributes no row, and the handler does not fail.
\<close>

theorem list_with_details_inner_join:
  assumes "primary_key Stage.id (stages db)" and "primary_key Stable.id (stables db)"
  shows "get_results_with_details db =
           map (\<lambda>r. [(''id'', PyInt (Result.id r)),
                      (''driver_name'', PyStr (Result.driver_name r)),
                      (''race_time'', PyFloat (Result.race_time r)),
                      (''stage_name'',
                       PyStr (Stage.name (the (List.find (\<lambda>s. Stage.id s = Result.stage_id r)
                                                  (stages db))))),
                      (''stable_name'',
                       PyStr (Stable.name (the (List.find (\<lambda>t. Stable.id t = Result.stable_id r)
                                                   (stables db)))))])
             (filter (references_resolve db) (results db))
       \<and> (\<forall>r \<in> set (results db). \<forall>s \<in> set (stages db). \<forall>t \<in> set (stables db).
             Stage.id s = Result.stage_id r \<and> Stable.id t = Result.stable_id r \<longrightarrow>
             List.find (\<lambda>s. Stage.id s = Result.stage_id r) (stages db) = Some s
             \<and> List.find (\<lambda>t. Stable.id t = Result.stable_id r) (stables db) = Some t
             \<and> details_row (r, Stage.name s, Stable.name t) \<in> set (get_results_with_details db))"
proof (intro conjI ballI impI)
  show eq: "get_results_with_details db =
           map (\<lambda>r. [(''id'', PyInt (Result.id r)),
                      (''driver_name'', PyStr (Result.driver_name r)),
                      (''race_time'', PyFloat (Result.race_time r)),
                      (''stage_name'',
                       PyStr (Stage.name (the (List.find (\<lambda>s. Stage.id s = Result.stage_id r)
                                                  (stages db))))),
                      (''stable_name'',
                       PyStr (Stable.name (the (List.find (\<lambda>t. Stable.id t = Result.stable_id r)
                                                   (stables db)))))])
             (filter (references_resolve db) (results db))"
    unfolding get_results_with_details_def join_query_pk [OF assms]
    by (simp add: details_row_def o_def)
next
  fix r s t
  assume r: "r \<in> set (results db)" and s: "s \<in> set (stages db)" and t: "t \<in> set (stables db)"
    and m: "Stage.id s = Result.stage_id r \<and> Stable.id t = Result.stable_id r"
  show fs: "List.find (\<lambda>s. Stage.id s = Result.stage_id r) (stages db) = Some s"
    using find_pk [OF assms(1) s] m by simp
  show ft: "List.find (\<lambda>t. Stable.id t = Result.stable_id r) (stables db) = Some t"
    using find_pk [OF assms(2) t] m by simp
  from s t m have "references_resolve db r"
    by (auto simp: references_resolve_def)
  with r have "(r, Stage.name (the (List.find (\<lambda>s. Stage.id s = Result.stage_id r) (stages db))),
                   Stable.name (the (List.find (\<lambda>t. Stable.id t = Result.stable_id r) (stables db))))
               \<in> set (join_query db)"
    unfolding join_query_pk [OF assms] by simp
  then show "details_row (r, Stage.name s, Stable.name t) \<in> set (get_results_with_details db)"
    unfolding get_results_with_details_def fs ft by simp
qed

theorem list_with_details_inner_join_witness:
  "get_results_with_details sample_db =
     [[(''id'', PyInt 1), (''driver_name'', PyStr ''Max''), (''race_time'', PyFloat 95.2),
       (''stage_name'', PyStr ''Monza''), (''stable_name'', PyStr ''Red Bull'')],
      [(''id'', PyInt 2), (''driver_name'', PyStr ''Charles''), (''race_time'', PyFloat 90),
       (''stage_name'', PyStr ''Monza''), (''stable_name'', PyStr ''Ferrari'')],
      [(''id'', PyInt 3), (''driver_name'', PyStr ''Sergio''), (''race_time'', PyFloat 101.5),
       (''stage_name'', PyStr ''Spa''), (''stable_name'', PyStr ''Red Bull'')]]
   \<and> result_orphan \<in> set (results sample_db)
   \<and> \<not> references_resolve sample_db result_orphan"
proof -
  have a: "primary_key Stage.id (stages sample_db)"
    by (simp add: sample_defs primary_key_def)
  have b: "primary_key Stable.id (stables sample_db)"
    by (simp add: sample_defs primary_key_def)
  have f: "filter (references_resolve sample_db) (results sample_db) =
             [result_max, result_charles, result_sergio]"
    by (simp add: sample_defs references_resolve_def)
  have o: "result_orphan \<in> set (results sample_db)"
    by (simp add: sample_db_def)
  have n: "\<not> references_resolve sample_db result_orphan"
    by (simp add: sample_defs references_resolve_def)
  note t = list_with_details_inner_join [OF a b, THEN conjunct1]
  have "get_results_with_details sample_db =
     [[(''id'', PyInt 1), (''driver_name'', PyStr ''Max''), (''race_time'', PyFloat 95.2),
       (''stage_name'', PyStr ''Monza''), (''stable_name'', PyStr ''Red Bull'')],
      [(''id'', PyInt 2), (''driver_name'', PyStr ''Charles''), (''race_time'', PyFloat 90),
       (''stage_name'', PyStr ''Monza''), (''stable_name'', PyStr ''Ferrari'')],
      [(''id'', PyInt 3), (''driver_name'', PyStr ''Sergio''), (''race_time'', PyFloat 101.5),
       (''stage_name'', PyStr ''Spa''), (''stable_name'', PyStr ''Red Bull'')]]"
    unfolding t f by (simp add: sample_defs)
  with o n show ?thesis by (intro conjI)
qed

text \<open>
  C10.  Every dictionary the join handler returns has exactly the five keys \<open>id\<close>,
  \<open>driver_name\<close>, \<open>race_time\<close>, \<open>stage_name\<close> and \<open>stable_name\<close>, in that order; it has no
  entry for \<open>laps\<close>, \<open>pit_stops\<close>, \<open>position\<close>, \<open>stage_id\<close> or \<open>stable_id\<close>.
\<close>

theorem details_row_has_five_fields:
  "\<forall>d \<in> set (get_results_with_details db).
     map fst d = [''id'', ''driver_name'', ''race_time'', ''stage_name'', ''stable_name'']
     \<and> map_of d ''laps'' = None \<and> map_of d ''pit_stops'' = None
     \<and> map_of d ''position'' = None \<and> map_of d ''stage_id'' = None
     \<and> map_of d ''stable_id'' = None"
  by (auto simp: get_results_with_details_def details_row_def)

theorem details_row_has_five_fields_witness:
  "[(''id'', PyInt 1), (''driver_name'', PyStr ''Max''), (''race_time'', PyFloat 95.2),
    (''stage_name'', PyStr ''Monza''), (''stable_name'', PyStr ''Red Bull'')]
     \<in> set (get_results_with_details sample_db)
   \<and> map_of (hd (get_results_with_details sample_db)) ''laps'' = None
   \<and> map fst (hd (get_results_with_details sample_db)) =
       [''id'', ''driver_name'', ''race_time'', ''stage_name'', ''stable_name'']"
proof -
  have e: "get_results_with_details sample_db =
     [[(''id'', PyInt 1), (''driver_name'', PyStr ''Max''), (''race_time'', PyFloat 95.2),
       (''stage_name'', PyStr ''Monza''), (''stable_name'', PyStr ''Red Bull'')],
      [(''id'', PyInt 2), (''driver_name'', PyStr ''Charles''), (''race_time'', PyFloat 90),
       (''stage_name'', PyStr ''Monza''), (''stable_name'', PyStr ''Ferrari'')],
      [(''id'', PyInt 3), (''driver_name'', PyStr ''Sergio''), (''race_time'', PyFloat 101.5),
       (''stage_name'', PyStr ''Spa''), (''stable_name'', PyStr ''Red Bull'')]]"
    by (simp add: get_results_with_details_def join_query_def details_row_def sample_defs)
  then have m: "hd (get_results_with_details sample_db) \<in> set (get_results_with_details sample_db)"
    by simp
  note k = details_row_has_five_fields [of sample_db, THEN bspec, OF m]
  from k have "map fst (hd (get_results_with_details sample_db)) =
          [''id'', ''driver_name'', ''race_time'', ''stage_name'', ''stable_name'']"
    by (rule conjunct1)
  moreover from k have "map_of (hd (get_results_with_details sample_db)) ''laps'' = None"
    by (rule conjunct2 [THEN conjunct1])
  moreover from e have "[(''id'', PyInt 1), (''driver_name'', PyStr ''Max''), (''race_time'', PyFloat 95.2),
    (''stage_name'', PyStr ''Monza''), (''stable_name'', PyStr ''Red Bull'')]
     \<in> set (get_results_with_details sample_db)"
    by simp
  ultimately show ?thesis by (intro conjI)
qed






















lemma int_field_present:
  "int_field body k = Inr v \<Longrightarrow> k \<in> fst ` set body"
  by (auto simp: int_field_def split: option.splits dest: map_of_SomeD intro: rev_image_eqI)

lemma ResultCreate_validate_needs_position_and_pit_stops:
  assumes "ResultCreate_validate body = Inr result"
  shows "''position'' \<in> fst ` set body \<and> ''pit_stops'' \<in> fst ` set body"
proof -
  from assms obtain v4 v5 where
    "int_field body ''position'' = Inr v4" and "int_field body ''pit_stops'' = Inr v5"
    by (auto simp: ResultCreate_validate_def split: sum.splits)
  then show ?thesis
    by (blast dest: int_field_present)
qed

lemma StageCreate_validate_needs_attendance:
  assumes "StageCreate_validate body = Inr stage"
  shows "''attendance'' \<in> fst ` set body"
proof -
  from assms obtain v4 where "int_field body ''attendance'' = Inr v4"
    by (auto simp: StageCreate_validate_def split: sum.splits)
  then show ?thesis
    by (rule int_field_present)
qed

text \<open>
  C9.  The claim is that a creation payload may omit a Result's \<open>pit_stops\<close> and \<open>position\<close>
  and a Stage's \<open>attendance\<close>.  On the schemas as written, a result body without
  \<open>position\<close> and \<open>pit_stops\<close> is rejected for the missing \<open>position\<close>, and with \<open>position\<close>
  supplied for the missing \<open>pit_stops\<close>; it is accepted once both are present.  A stage
  body without \<open>attendance\<close> is rejected, and accepted once it is present.  A stable body
  without \<open>motor\<close> and \<open>tire\<close> is accepted and stores both as absent.
\<close>

theorem creation_requires_position_pit_stops_attendance:
  "ResultCreate_validate result_body = Inl (Field_required ''position'')
   \<and> ResultCreate_validate (result_body @ [(''position'', PyInt 1)]) =
       Inl (Field_required ''pit_stops'')
   \<and> ResultCreate_validate (result_body @ [(''position'', PyInt 1), (''pit_stops'', PyInt 2)]) =
       Inr \<lparr> ResultBase.driver_name = ''Max'', race_time = 95.2, laps = 53, position = 1,
             pit_stops = 2, stable_id = 1, stage_id = 1 \<rparr>
   \<and> StageCreate_validate stage_body = Inl (Field_required ''attendance'')
   \<and> StageCreate_validate (stage_body @ [(''attendance'', PyInt 40000)]) =
       Inr \<lparr> StageBase.name = ''Monza'', country = ''Italy'', date = (2024, 5, 1),
             attendance = 40000, lap_length = 5.79 \<rparr>
   \<and> StableCreate_validate stable_body =
       Inr \<lparr> StableBase.name = ''Red Bull'', country = ''Austria'', motor = None, tire = None \<rparr>"
  by (simp add: ResultCreate_validate_def StageCreate_validate_def StableCreate_validate_def
        str_field_def int_field_def float_field_def date_field_def optional_str_field_def
        result_body_def stage_body_def stable_body_def)

end
